theory Spec2Isabelle
  imports Complex_Main "HOL-Library.AList"
begin

section \<open>Data model\<close>

text \<open>
  Python floats are modelled as exact reals: the scores are sums of a few decimal
  constants, and every claim below is about order and averages, not about binary
  rounding. Counts delivered by the hosting API (stars, forks, sizes, byte counts) are
  natural numbers. A dictionary is an association list in insertion order.
\<close>

text \<open>\<^verbatim>\<open>RepositoryData\<close> of \<^verbatim>\<open>app/interfaces/github_interface.py\<close>. The fields
  \<^verbatim>\<open>id\<close> and \<^verbatim>\<open>size\<close> carry a suffix, as both names are HOL constants.\<close>

record repository_data =
  id_r :: nat
  name :: string
  full_name :: string
  description :: "string option"
  language :: "string option"
  stars :: nat
  forks :: nat
  created_at :: string
  updated_at :: string
  topics :: "string list"
  size_r :: nat
  url :: string

text \<open>The dictionaries built by \<^verbatim>\<open>get_contributors\<close>, \<^verbatim>\<open>get_commits\<close> and
  \<^verbatim>\<open>get_issues\<close> of \<^verbatim>\<open>github_repository.py\<close>: every key is always present.\<close>

record contributor =
  login :: string
  contributor_id :: nat
  contributions :: nat

record commit =
  sha :: string
  message :: string
  author :: string
  date :: string

record issue =
  number :: nat
  title :: string
  state :: string
  closed_at :: "string option"
  labels :: "string list"

text \<open>\<^verbatim>\<open>AnalysisResult\<close>: the repository and the four scores. The text fields
  (insights, recommendations, timestamp) are left out: no score reads them.\<close>

record analysis_result =
  repository :: repository_data
  technical_score :: real
  quality_score :: real
  activity_score :: real
  overall_score :: real

subsection \<open>Dates\<close>

text \<open>
  \<^verbatim>\<open>datetime.fromisoformat\<close> belongs to the Python library; it is a parameter of the
  model. It raises \<^verbatim>\<open>ValueError\<close> on a malformed string (\<open>None\<close> here) and otherwise
  returns a naive datetime (no offset in the string) or an aware one (an offset such as
  \<^verbatim>\<open>+00:00\<close>). A datetime is its number of microseconds on its own clock.
  \<^verbatim>\<open>datetime.now()\<close> is naive; comparing or subtracting a naive and an aware datetime
  raises \<^verbatim>\<open>TypeError\<close>.
\<close>

datatype pydatetime = Naive int | Aware int

type_synonym iso_parser = "string \<Rightarrow> pydatetime option"

datatype py_error = ValueError | TypeError

definition replace_Z :: "string \<Rightarrow> string" where
  \<comment> \<open>\<^verbatim>\<open>s.replace('Z', '+00:00')\<close>\<close>
  "replace_Z s = concat (map (\<lambda>c. if c = CHR ''Z'' then ''+00:00'' else [c]) s)"

definition timedelta_days :: "int \<Rightarrow> int" where
  \<comment> \<open>\<^verbatim>\<open>timedelta(days=d)\<close> in microseconds\<close>
  "timedelta_days d = d * 86400000000"

definition days_of :: "int \<Rightarrow> int" where
  \<comment> \<open>\<^verbatim>\<open>.days\<close> of a timedelta of that many microseconds: rounded towards minus infinity\<close>
  "days_of us = us div 86400000000"

definition parse_date :: "iso_parser \<Rightarrow> string \<Rightarrow> py_error + pydatetime" where
  \<comment> \<open>\<^verbatim>\<open>datetime.fromisoformat(s.replace('Z', '+00:00'))\<close>\<close>
  "parse_date fromisoformat s =
     (case fromisoformat (replace_Z s) of None \<Rightarrow> Inl ValueError | Some d \<Rightarrow> Inr d)"

definition later_than :: "pydatetime \<Rightarrow> int \<Rightarrow> py_error + bool" where
  \<comment> \<open>\<^verbatim>\<open>d > cutoff\<close> for a naive \<^verbatim>\<open>cutoff\<close>\<close>
  "later_than d cutoff = (case d of Naive t \<Rightarrow> Inr (cutoff < t) | Aware t \<Rightarrow> Inl TypeError)"

definition days_since :: "int \<Rightarrow> pydatetime \<Rightarrow> py_error + int" where
  \<comment> \<open>\<^verbatim>\<open>(datetime.now() - d).days\<close>\<close>
  "days_since now d = (case d of Naive t \<Rightarrow> Inr (days_of (now - t)) | Aware t \<Rightarrow> Inl TypeError)"

section \<open>Single-repository scorer (\<^verbatim>\<open>repository_analyzer.py\<close>)\<close>

definition complexity_map :: "(string \<times> real) list" where
  "complexity_map =
     [(''Assembly'', 10), (''C++'', 9), (''C'', 8), (''Rust'', 8), (''Go'', 7),
      (''Java'', 6), (''C#'', 6), (''Python'', 5), (''JavaScript'', 4), (''TypeScript'', 5),
      (''PHP'', 4), (''Ruby'', 4), (''Swift'', 6), (''Kotlin'', 6), (''Scala'', 7),
      (''HTML'', 2), (''CSS'', 2), (''Markdown'', 1), (''Shell'', 3)]"

definition get_language_complexity :: "string \<Rightarrow> real" where
  "get_language_complexity l = (case map_of complexity_map l of Some c \<Rightarrow> c | None \<Rightarrow> 5)"

definition complex_topics :: "string list" where
  "complex_topics = [''ai'', ''ml'', ''blockchain'', ''quantum'', ''distributed'']"

definition clamp_score :: "real \<Rightarrow> real" where
  \<comment> \<open>\<^verbatim>\<open>max(1.0, min(10.0, score))\<close>\<close>
  "clamp_score score = max 1 (min 10 score)"

definition technical_raw :: "repository_data \<Rightarrow> (string \<times> nat) list \<Rightarrow> real" where
  "technical_raw r languages =
     (let score = 5;
          score = (case language r of
                     None \<Rightarrow> score
                   | Some l \<Rightarrow> if l \<noteq> [] then score + (get_language_complexity l - 5) * (2 / 10)
                              else score);
          score = (if 10000 < size_r r then score + 1
                   else if 1000 < size_r r then score + 1 / 2 else score);
          score = (if 3 < length languages then score + 1 / 2 else score);
          score = (if topics r \<noteq> [] \<and> list_ex (\<lambda>t. t \<in> set (topics r)) complex_topics
                   then score + 1 else score)
      in score)"

definition calculate_technical_score :: "repository_data \<Rightarrow> (string \<times> nat) list \<Rightarrow> real" where
  "calculate_technical_score r languages = clamp_score (technical_raw r languages)"

definition open_issues :: "issue list \<Rightarrow> nat" where
  "open_issues issues = length (filter (\<lambda>i. state i = ''open'') issues)"

definition quality_raw :: "repository_data \<Rightarrow> contributor list \<Rightarrow> issue list \<Rightarrow> real" where
  "quality_raw r contributors issues =
     (let score = 5;
          score = (case description r of
                     None \<Rightarrow> score
                   | Some d \<Rightarrow> if d \<noteq> [] \<and> 50 < length d then score + 1 else score);
          score = (if 1 < length contributors then score + 1 else score);
          score = (if issues \<noteq> [] \<and> open_issues issues < 10 then score + 1 else score);
          score = (if 10 < stars r then score + 1 / 2 else score);
          score = (if 5 < forks r then score + 1 / 2 else score)
      in score)"

definition calculate_quality_score ::
  "repository_data \<Rightarrow> contributor list \<Rightarrow> issue list \<Rightarrow> real" where
  "calculate_quality_score r contributors issues = clamp_score (quality_raw r contributors issues)"

text \<open>The loop over the commits: a commit whose date does not parse, or whose parsed
  date cannot be compared with the naive cutoff, is skipped by the bare \<^verbatim>\<open>except\<close>.\<close>

definition commit_is_recent :: "iso_parser \<Rightarrow> int \<Rightarrow> commit \<Rightarrow> bool" where
  "commit_is_recent fromisoformat cutoff c =
     (case parse_date fromisoformat (date c) of
        Inl e \<Rightarrow> False
      | Inr d \<Rightarrow> (case later_than d cutoff of Inl e \<Rightarrow> False | Inr b \<Rightarrow> b))"

fun count_recent :: "iso_parser \<Rightarrow> int \<Rightarrow> commit list \<Rightarrow> nat \<Rightarrow> nat" where
  "count_recent fromisoformat cutoff [] recent_commits = recent_commits"
| "count_recent fromisoformat cutoff (c # cs) recent_commits =
     count_recent fromisoformat cutoff cs
       (if commit_is_recent fromisoformat cutoff c then recent_commits + 1 else recent_commits)"

definition age_days :: "iso_parser \<Rightarrow> int \<Rightarrow> repository_data \<Rightarrow> int" where
  "age_days fromisoformat now r =
     (case parse_date fromisoformat (created_at r) of
        Inl e \<Rightarrow> 0
      | Inr d \<Rightarrow> (case days_since now d of Inl e \<Rightarrow> 0 | Inr n \<Rightarrow> n))"

definition activity_raw :: "iso_parser \<Rightarrow> int \<Rightarrow> repository_data \<Rightarrow> commit list \<Rightarrow> real" where
  "activity_raw fromisoformat now r commits =
     (let score = 5;
          score = (if commits \<noteq> []
                   then (let recent_commits =
                               count_recent fromisoformat (now - timedelta_days 90) commits 0
                         in if 10 < recent_commits then score + 2
                            else if 5 < recent_commits then score + 1
                            else if 0 < recent_commits then score + 1 / 2
                            else score)
                   else score);
          score = (if 365 < age_days fromisoformat now r then score + 1 / 2 else score)
      in score)"

definition calculate_activity_score ::
  "iso_parser \<Rightarrow> int \<Rightarrow> repository_data \<Rightarrow> commit list \<Rightarrow> real" where
  "calculate_activity_score fromisoformat now r commits =
     clamp_score (activity_raw fromisoformat now r commits)"

text \<open>\<^verbatim>\<open>analyze_repository\<close>, from the fetched signals on (lines 34 to 53).\<close>

definition analyze_repository ::
  "iso_parser \<Rightarrow> int \<Rightarrow> repository_data \<Rightarrow> (string \<times> nat) list \<Rightarrow> contributor list \<Rightarrow>
   commit list \<Rightarrow> issue list \<Rightarrow> analysis_result" where
  "analyze_repository fromisoformat now r languages contributors commits issues =
     (let technical = calculate_technical_score r languages;
          quality = calculate_quality_score r contributors issues;
          activity = calculate_activity_score fromisoformat now r commits
      in \<lparr>repository = r, technical_score = technical, quality_score = quality,
          activity_score = activity, overall_score = (technical + quality + activity) / 3\<rparr>)"

section \<open>Similarity search (\<^verbatim>\<open>enhanced_analyzer.py\<close>)\<close>

text \<open>An entry of a search result, with the keys the analyzer reads. The hosting API
  always sends \<^verbatim>\<open>full_name\<close>, \<^verbatim>\<open>stargazers_count\<close>, \<^verbatim>\<open>forks_count\<close> and
  \<^verbatim>\<open>updated_at\<close>; \<^verbatim>\<open>language\<close> and \<^verbatim>\<open>description\<close> may be null, and a missing
  \<^verbatim>\<open>topics\<close> is read as the empty list.\<close>

record candidate =
  c_full_name :: string
  stargazers_count :: nat
  forks_count :: nat
  c_language :: "string option"
  c_topics :: "string list"
  c_description :: "string option"
  c_updated_at :: string

subsection \<open>Keyword extraction\<close>

text \<open>
  \<^verbatim>\<open>re.findall(r'\b[a-zA-Z0-9-]+\b', text.lower())\<close>. The keyword extraction reads the
  characters of the text, so here a text is the list of its Unicode code points, and an
  ASCII literal is written \<open>ascii ''...''\<close>.

  The characters of the class are ASCII. A word character (\<^verbatim>\<open>\w\<close>) is an ASCII letter,
  an ASCII digit, the underscore, or a character beyond ASCII that Python's Unicode
  tables count as alphanumeric. \<^verbatim>\<open>\b\<close> holds between a word character and a character
  that is none (or an end of the text). The class is matched greedily and gives
  characters back until \<^verbatim>\<open>\b\<close> holds at its end.

  Python's Unicode tables are parameters: \<open>alnum\<close> tells which code points from 128 on
  are alphanumeric, and \<open>str_lower\<close> is \<^verbatim>\<open>str.lower\<close> on a text that has a character
  beyond ASCII (it is not a map of single characters there). On ASCII text
  \<^verbatim>\<open>str.lower\<close> maps the letters A to Z to a to z and nothing else.
\<close>

type_synonym pystr = "nat list"

record unicode =
  alnum :: "nat \<Rightarrow> bool"
  str_lower :: "pystr \<Rightarrow> pystr"

definition ascii :: "string \<Rightarrow> pystr" where
  "ascii s = map of_char s"

definition is_ascii :: "nat \<Rightarrow> bool" where
  "is_ascii c = (c < 128)"

definition upper_letters :: string where
  "upper_letters = ''ABCDEFGHIJKLMNOPQRSTUVWXYZ''"

definition lower_letters :: string where
  "lower_letters = ''abcdefghijklmnopqrstuvwxyz''"

definition digits :: string where
  "digits = ''0123456789''"

definition lower_char :: "nat \<Rightarrow> nat" where
  \<comment> \<open>the letters A to Z are the code points 65 to 90, a to z are 97 to 122\<close>
  "lower_char c = (if 65 \<le> c \<and> c \<le> 90 then c + 32 else c)"

definition lower :: "unicode \<Rightarrow> pystr \<Rightarrow> pystr" where
  "lower u txt = (if list_all is_ascii txt then map lower_char txt else str_lower u txt)"

definition is_word :: "unicode \<Rightarrow> nat \<Rightarrow> bool" where
  "is_word u c =
     (if is_ascii c then c \<in> set (ascii (lower_letters @ upper_letters @ digits @ ''_''))
      else alnum u c)"

definition in_class :: "nat \<Rightarrow> bool" where
  "in_class c = (c \<in> set (ascii (lower_letters @ upper_letters @ digits @ ''-'')))"

text \<open>\<open>match_len u p rest\<close>: the character \<open>p\<close> of the class is matched and \<open>rest\<close>
  follows it; the result is the number of further characters of the longest match, if
  any.\<close>

fun match_len :: "unicode \<Rightarrow> nat \<Rightarrow> pystr \<Rightarrow> nat option" where
  "match_len u p [] = (if is_word u p then Some 0 else None)"
| "match_len u p (c # cs) =
     (case (if in_class c then match_len u c cs else None) of
        Some n \<Rightarrow> Some (Suc n)
      | None \<Rightarrow> if is_word u p \<noteq> is_word u c then Some 0 else None)"

text \<open>\<open>findall u prev_word txt\<close>: all matches from left to right, not overlapping;
  \<open>prev_word\<close> tells whether the character before \<open>txt\<close> is a word character.\<close>

function findall :: "unicode \<Rightarrow> bool \<Rightarrow> pystr \<Rightarrow> pystr list" where
  "findall u prev_word [] = []"
| "findall u prev_word (c # cs) =
     (if in_class c \<and> prev_word \<noteq> is_word u c
      then (case match_len u c cs of
              Some n \<Rightarrow> (c # take n cs)
                        # findall u (is_word u (last (c # take n cs))) (drop n cs)
            | None \<Rightarrow> findall u (is_word u c) cs)
      else findall u (is_word u c) cs)"
  by pat_completeness auto
termination
  by (relation "measure (\<lambda>(u, p, txt). length txt)") auto

definition common_words :: "pystr list" where
  "common_words =
     map ascii
       [''the'', ''a'', ''an'', ''and'', ''or'', ''but'', ''in'', ''on'', ''at'', ''to'', ''for'',
        ''of'', ''with'', ''by'', ''is'', ''are'', ''was'', ''were'', ''be'', ''been'', ''have'',
        ''has'', ''had'', ''do'', ''does'', ''did'', ''will'', ''would'', ''could'', ''should'']"

definition extract_keywords :: "unicode \<Rightarrow> pystr \<Rightarrow> pystr list" where
  "extract_keywords u txt =
     (if txt = [] then []
      else (let words = findall u False (lower u txt);
                keywords = filter (\<lambda>word. 2 < length word \<and> word \<notin> set common_words) words
            in take 10 keywords))"

text \<open>What a match of the pattern is: \<open>w\<close> stands between \<open>pre\<close> and \<open>post\<close>, is not
  empty, is made of characters of the class, and \<^verbatim>\<open>\b\<close> holds at both of its ends
  (\<open>prev_word\<close> tells about the character before \<open>pre\<close>).\<close>

definition token_at :: "unicode \<Rightarrow> bool \<Rightarrow> pystr \<Rightarrow> pystr \<Rightarrow> pystr \<Rightarrow> bool" where
  "token_at u prev_word pre w post =
     (w \<noteq> [] \<and> list_all in_class w
      \<and> is_word u (hd w) \<noteq> (if pre = [] then prev_word else is_word u (last pre))
      \<and> is_word u (last w) \<noteq> (post \<noteq> [] \<and> is_word u (hd post)))"

subsection \<open>Pooling, deduplication and ranking\<close>

definition dict_set :: "'k \<Rightarrow> 'v \<Rightarrow> ('k \<times> 'v) list \<Rightarrow> ('k \<times> 'v) list" where
  \<comment> \<open>\<^verbatim>\<open>d[k] = v\<close>: a present key keeps its place, a new key goes to the end\<close>
  "dict_set k v d = AList.update k v d"

definition remember :: "candidate \<Rightarrow> (string \<times> candidate) list \<Rightarrow> (string \<times> candidate) list" where
  "remember repo unique_repos =
     (case map_of unique_repos (c_full_name repo) of
        None \<Rightarrow> dict_set (c_full_name repo) repo unique_repos
      | Some old \<Rightarrow>
          if stargazers_count old < stargazers_count repo
          then dict_set (c_full_name repo) repo unique_repos
          else unique_repos)"

fun collect_unique ::
  "candidate list \<Rightarrow> (string \<times> candidate) list \<Rightarrow> (string \<times> candidate) list" where
  "collect_unique [] unique_repos = unique_repos"
| "collect_unique (repo # similar_repos) unique_repos =
     collect_unique similar_repos (remember repo unique_repos)"

definition sort_by_stars :: "candidate list \<Rightarrow> candidate list" where
  \<comment> \<open>\<^verbatim>\<open>sorted(..., key=stars, reverse=True)\<close>: stable, equal keys keep their order\<close>
  "sort_by_stars xs = sort_key (\<lambda>x. - int (stargazers_count x)) xs"

definition dedup_and_rank :: "candidate list \<Rightarrow> candidate list" where
  "dedup_and_rank similar_repos =
     (let unique_repos = collect_unique similar_repos [];
          sorted_repos = sort_by_stars (map snd unique_repos)
      in take 20 sorted_repos)"

text \<open>The search itself is the hosting API's: \<open>github_search query max_results\<close> is a
  parameter, and gives the empty list when the call fails.\<close>

fun join :: "'a list \<Rightarrow> 'a list list \<Rightarrow> 'a list" where
  \<comment> \<open>\<^verbatim>\<open>sep.join(xs)\<close>\<close>
  "join sep [] = []"
| "join sep [x] = x"
| "join sep (x # y # ys) = x @ sep @ join sep (y # ys)"

definition search_by_keywords ::
  "(pystr \<Rightarrow> nat \<Rightarrow> candidate list) \<Rightarrow> unicode \<Rightarrow> pystr \<Rightarrow> candidate list" where
  "search_by_keywords github_search u d =
     (let keywords = extract_keywords u d
      in if keywords = [] then []
         else github_search (join (ascii '' '') (take 3 keywords) @ ascii '' stars:>5'') 10)"

section \<open>Comparison-set aggregator\<close>

text \<open>The dictionary returned by \<^verbatim>\<open>_analyze_top_repositories\<close>: either empty (\<open>None\<close>
  below) or with all of these keys. \<^verbatim>\<open>list(set(practices))\<close> has no order of its own,
  so the best practices are a set.\<close>

record top_analysis =
  total_analyzed :: nat
  average_stars :: real
  average_forks :: real
  common_languages :: "(string \<times> nat) list"
  common_topics :: "(string \<times> nat) list"
  best_practices :: "string set"
  readme_patterns :: "string list"
  file_structure_patterns :: "string list"

definition bump :: "string \<Rightarrow> (string \<times> nat) list \<Rightarrow> (string \<times> nat) list" where
  \<comment> \<open>\<^verbatim>\<open>d[k] = d.get(k, 0) + 1\<close>\<close>
  "bump k d = dict_set k ((case map_of d k of None \<Rightarrow> 0 | Some n \<Rightarrow> n) + 1) d"

fun count_languages :: "candidate list \<Rightarrow> (string \<times> nat) list \<Rightarrow> (string \<times> nat) list" where
  "count_languages [] d = d"
| "count_languages (repo # repos) d =
     count_languages repos
       (case c_language repo of
          None \<Rightarrow> d
        | Some lang \<Rightarrow> if lang \<noteq> [] then bump lang d else d)"

fun count_topics :: "candidate list \<Rightarrow> (string \<times> nat) list \<Rightarrow> (string \<times> nat) list" where
  "count_topics [] d = d"
| "count_topics (repo # repos) d = count_topics repos (fold bump (c_topics repo) d)"

text \<open>One round of the loop of \<^verbatim>\<open>_extract_best_practices\<close>. The date is parsed and
  subtracted from \<^verbatim>\<open>datetime.now()\<close> outside any \<^verbatim>\<open>try\<close>: an error leaves the loop.\<close>

definition practices_of :: "iso_parser \<Rightarrow> int \<Rightarrow> candidate \<Rightarrow> py_error + string list" where
  "practices_of fromisoformat now repo =
     (let practices = [];
          practices = (if 100 < stargazers_count repo
                       then practices @ [''High community engagement (100+ stars)'']
                       else practices);
          practices = (if 50 < forks_count repo
                       then practices @ [''Active community contribution (50+ forks)'']
                       else practices);
          practices = (case c_description repo of
                         None \<Rightarrow> practices
                       | Some d \<Rightarrow> if d \<noteq> [] \<and> 50 < length d
                                  then practices @ [''Comprehensive project description'']
                                  else practices);
          practices = (if 3 < length (c_topics repo)
                       then practices @ [''Well-categorized with multiple topics'']
                       else practices)
      in case parse_date fromisoformat (c_updated_at repo) of
           Inl e \<Rightarrow> Inl e
         | Inr d \<Rightarrow>
             (case days_since now d of
                Inl e \<Rightarrow> Inl e
              | Inr n \<Rightarrow> Inr (if n < 30 then practices @ [''Recent development activity'']
                             else practices)))"

fun practices_loop ::
  "iso_parser \<Rightarrow> int \<Rightarrow> candidate list \<Rightarrow> string list \<Rightarrow> py_error + string list" where
  "practices_loop fromisoformat now [] practices = Inr practices"
| "practices_loop fromisoformat now (repo # repos) practices =
     (case practices_of fromisoformat now repo of
        Inl e \<Rightarrow> Inl e
      | Inr ps \<Rightarrow> practices_loop fromisoformat now repos (practices @ ps))"

definition extract_best_practices ::
  "iso_parser \<Rightarrow> int \<Rightarrow> candidate list \<Rightarrow> py_error + string set" where
  "extract_best_practices fromisoformat now repositories =
     (case practices_loop fromisoformat now repositories [] of
        Inl e \<Rightarrow> Inl e
      | Inr practices \<Rightarrow> Inr (set practices))"

text \<open>\<^verbatim>\<open>_analyze_top_repositories\<close>: any exception inside is caught by the function's
  \<^verbatim>\<open>except Exception\<close>, which returns the empty dictionary.\<close>

definition analyze_top_repositories ::
  "iso_parser \<Rightarrow> int \<Rightarrow> candidate list \<Rightarrow> top_analysis option" where
  "analyze_top_repositories fromisoformat now repositories =
     (if repositories = [] then None
      else (let top_repos = take 5 repositories
            in case extract_best_practices fromisoformat now top_repos of
                 Inl e \<Rightarrow> None
               | Inr practices \<Rightarrow>
                   Some \<lparr>total_analyzed = length top_repos,
                         average_stars = real (sum_list (map stargazers_count top_repos))
                                         / real (length top_repos),
                         average_forks = real (sum_list (map forks_count top_repos))
                                         / real (length top_repos),
                         common_languages = count_languages top_repos [],
                         common_topics = count_topics top_repos [],
                         best_practices = practices,
                         readme_patterns = [],
                         file_structure_patterns = []\<rparr>))"

section \<open>Recommendation generator\<close>

record recommendation =
  category :: string
  rec_title :: string
  rec_description :: string
  priority :: string
  action_items :: "string list"

text \<open>Python's number formatting (\<^verbatim>\<open>str\<close> of an integer, the format specifications
  \<^verbatim>\<open>.0f\<close> and \<^verbatim>\<open>.1f\<close>) is a parameter.\<close>

record formats =
  str_int :: "nat \<Rightarrow> string"
  fmt_0f :: "real \<Rightarrow> string"
  fmt_1f :: "real \<Rightarrow> string"

definition visibility_rec :: "formats \<Rightarrow> repository_data \<Rightarrow> real \<Rightarrow> recommendation" where
  "visibility_rec fmt r avg_stars =
     \<lparr>category = ''Community Engagement'',
      rec_title = ''Increase Repository Visibility'',
      rec_description = ''Your repository has '' @ str_int fmt (stars r)
         @ '' stars, while similar top repositories average '' @ fmt_0f fmt avg_stars
         @ '' stars. Focus on promoting your project.'',
      priority = ''high'',
      action_items = [''Add comprehensive README with screenshots'',
                      ''Create demo videos or live examples'',
                      ''Share on social media and developer communities'',
                      ''Write blog posts about your project'']\<rparr>"

definition contributions_rec :: "formats \<Rightarrow> repository_data \<Rightarrow> real \<Rightarrow> recommendation" where
  "contributions_rec fmt r avg_forks =
     \<lparr>category = ''Community Contribution'',
      rec_title = ''Encourage Community Contributions'',
      rec_description = ''Your repository has '' @ str_int fmt (forks r)
         @ '' forks, while similar repositories average '' @ fmt_0f fmt avg_forks
         @ '' forks. Make it easier for others to contribute.'',
      priority = ''medium'',
      action_items = [''Add CONTRIBUTING.md file'', ''Create good first issue labels'',
                      ''Add code of conduct'', ''Set up issue templates'']\<rparr>"

definition language_rec :: "formats \<Rightarrow> string \<Rightarrow> nat \<Rightarrow> recommendation" where
  "language_rec fmt l lang_count =
     \<lparr>category = ''Technology Stack'',
      rec_title = ''Leverage '' @ l @ '' Best Practices'',
      rec_description = l @ '' is used in '' @ str_int fmt lang_count
         @ '' of the top similar repositories. Ensure you're following '' @ l
         @ '' best practices.'',
      priority = ''medium'',
      action_items = [''Follow '' @ l @ '' style guides'', ''Add proper linting and formatting'',
                      ''Use modern {repository.language} features'',
                      ''Add comprehensive tests'']\<rparr>"

definition topics_rec :: "string list \<Rightarrow> recommendation" where
  "topics_rec missing_topics =
     \<lparr>category = ''Repository Organization'',
      rec_title = ''Add Relevant Topics'',
      rec_description = ''Consider adding these popular topics: ''
         @ join '', '' (take 5 missing_topics),
      priority = ''low'',
      action_items = [''Add relevant topics to improve discoverability'',
                      ''Research what topics similar repositories use'',
                      ''Keep topics updated as project evolves'']\<rparr>"

definition quality_rec :: "formats \<Rightarrow> real \<Rightarrow> recommendation" where
  "quality_rec fmt q =
     \<lparr>category = ''Code Quality'',
      rec_title = ''Improve Code Quality'',
      rec_description = ''Your quality score is '' @ fmt_1f fmt q
         @ ''/10. Focus on improving code quality.'',
      priority = ''high'',
      action_items = [''Add comprehensive documentation'', ''Write unit tests'',
                      ''Improve code comments'', ''Follow consistent coding standards'']\<rparr>"

definition activity_rec :: "formats \<Rightarrow> real \<Rightarrow> recommendation" where
  "activity_rec fmt a =
     \<lparr>category = ''Development Activity'',
      rec_title = ''Increase Development Activity'',
      rec_description = ''Your activity score is '' @ fmt_1f fmt a
         @ ''/10. Regular commits improve project credibility.'',
      priority = ''medium'',
      action_items = [''Make regular commits'', ''Respond to issues and PRs'',
                      ''Update dependencies regularly'',
                      ''Add new features or improvements'']\<rparr>"

definition missing_topics_of :: "repository_data \<Rightarrow> (string \<times> nat) list \<Rightarrow> string list" where
  \<comment> \<open>the loop over \<^verbatim>\<open>common_topics.items()\<close>\<close>
  "missing_topics_of r common =
     map fst (filter (\<lambda>(topic, count). topic \<notin> set (topics r) \<and> 2 \<le> count) common)"

definition generate_improvement_recommendations ::
  "formats \<Rightarrow> repository_data \<Rightarrow> analysis_result \<Rightarrow> top_analysis option \<Rightarrow> recommendation list" where
  "generate_improvement_recommendations fmt r basic_analysis top_repos_analysis =
     (let recommendations = [];
          recommendations =
            (case top_repos_analysis of
               None \<Rightarrow> recommendations
             | Some a \<Rightarrow>
                 (let avg_stars = average_stars a;
                      avg_forks = average_forks a;
                      recs = (if real (stars r) < avg_stars * (1 / 10)
                              then recommendations @ [visibility_rec fmt r avg_stars]
                              else recommendations)
                  in if real (forks r) < avg_forks * (1 / 10)
                     then recs @ [contributions_rec fmt r avg_forks] else recs));
          recommendations =
            (case language r of
               None \<Rightarrow> recommendations
             | Some l \<Rightarrow>
                 if l \<noteq> []
                 then (case map_of (case top_repos_analysis of
                                      None \<Rightarrow> [] | Some a \<Rightarrow> common_languages a) l of
                         None \<Rightarrow> recommendations
                       | Some lang_count \<Rightarrow>
                           if 3 \<le> lang_count
                           then recommendations @ [language_rec fmt l lang_count]
                           else recommendations)
                 else recommendations);
          recommendations =
            (if topics r \<noteq> []
             then (let missing_topics =
                         missing_topics_of r (case top_repos_analysis of
                                                None \<Rightarrow> [] | Some a \<Rightarrow> common_topics a)
                   in if missing_topics \<noteq> []
                      then recommendations @ [topics_rec missing_topics]
                      else recommendations)
             else recommendations);
          recommendations =
            (if quality_score basic_analysis < 7
             then recommendations @ [quality_rec fmt (quality_score basic_analysis)]
             else recommendations);
          recommendations =
            (if activity_score basic_analysis < 6
             then recommendations @ [activity_rec fmt (activity_score basic_analysis)]
             else recommendations)
      in recommendations)"

section \<open>Enhanced-score composer\<close>

record enhanced_scores =
  e_technical_score :: real
  e_quality_score :: real
  e_activity_score :: real
  e_overall_score :: real
  market_position_score :: real
  improvement_potential_score :: real

definition market_position :: "analysis_result \<Rightarrow> top_analysis option \<Rightarrow> real" where
  "market_position basic_analysis top_repos_analysis =
     (let score = 5
      in case top_repos_analysis of
           None \<Rightarrow> score
         | Some a \<Rightarrow>
             (let avg_stars = average_stars a;
                  avg_forks = average_forks a;
                  score = (if 0 < avg_stars
                           then min 10 (real (stars (repository basic_analysis)) / avg_stars * 10)
                           else score)
              in if 0 < avg_forks
                 then (score + min 10 (real (forks (repository basic_analysis)) / avg_forks * 10)) / 2
                 else score))"

definition improvement_potential :: "recommendation list \<Rightarrow> real" where
  "improvement_potential improvements =
     (let high_priority_improvements = length (filter (\<lambda>r. priority r = ''high'') improvements);
          medium_priority_improvements = length (filter (\<lambda>r. priority r = ''medium'') improvements);
          potential = real (high_priority_improvements * 2 + medium_priority_improvements) / 10
      in min 10 (5 + potential))"

definition calculate_enhanced_scores ::
  "analysis_result \<Rightarrow> top_analysis option \<Rightarrow> recommendation list \<Rightarrow> enhanced_scores" where
  "calculate_enhanced_scores basic_analysis top_repos_analysis improvements =
     (let market = market_position basic_analysis top_repos_analysis;
          potential = improvement_potential improvements
      in \<lparr>e_technical_score = technical_score basic_analysis,
          e_quality_score = quality_score basic_analysis,
          e_activity_score = activity_score basic_analysis,
          e_overall_score = (technical_score basic_analysis + quality_score basic_analysis
                             + activity_score basic_analysis + market + potential) / 5,
          market_position_score = market,
          improvement_potential_score = potential\<rparr>)"

section \<open>Portfolio aggregator (\<^verbatim>\<open>portfolio_analyzer.py\<close>)\<close>


record language_rank =
  lr_language :: string
  bytes :: nat
  percentage :: real
  rank :: nat



text \<open>\<^verbatim>\<open>round(x, 2)\<close>: to the nearest multiple of one hundredth, a tie to the even one.\<close>

definition round_half_even :: "real \<Rightarrow> int" where
  "round_half_even x =
     (let f = \<lfloor>x\<rfloor>; d = x - of_int f
      in if d < 1 / 2 then f else if 1 / 2 < d then f + 1 else if even f then f else f + 1)"

definition round2 :: "real \<Rightarrow> real" where
  "round2 x = of_int (round_half_even (x * 100)) / 100"

definition rank_languages :: "(string \<times> nat) list \<Rightarrow> language_rank list" where
  "rank_languages languages =
     (let total_bytes = sum_list (map snd languages)
      in if total_bytes = 0 then []
         else (let ranked = map (\<lambda>(lang, bytes_count).
                                   \<lparr>lr_language = lang, bytes = bytes_count,
                                    percentage = round2 (real bytes_count / real total_bytes * 100),
                                    rank = 0\<rparr>) languages;
                   ranked = sort_key (\<lambda>x. - int (bytes x)) ranked;
                   ranked = map (\<lambda>(i, lang). lang\<lparr>rank := i + 1\<rparr>) (enumerate 0 ranked)
               in take 10 ranked))"










subsection \<open>The analysis of one repository (\<^verbatim>\<open>github_analyzer.py\<close>)\<close>

text \<open>
  \<^verbatim>\<open>analyze_repository(username, repo_name)\<close> of \<^verbatim>\<open>GitHubAnalyzer\<close> collects ten
  signals and combines them. Every getter wraps its call of the hosting API in
  \<^verbatim>\<open>try\<close> and returns an empty value when the call raises. The calls are parameters;
  \<open>Inl\<close> is an exception of the call. Four signals are read by the scores and by the
  rollup: the languages, the commits, the topics and the analysis of the clone. The six
  others (repository information, contributors, issues, pull requests, releases,
  workflows) are stored in the result and read by neither; they are left out.
\<close>

datatype fetch_error = NotFound | RateLimited | UpstreamError










text \<open>The list comprehension of the activity score: a date that does not parse, or that
  cannot be compared with the naive cutoff, raises.\<close>

fun recent_commits :: "iso_parser \<Rightarrow> int \<Rightarrow> commit list \<Rightarrow> py_error + nat" where
  "recent_commits fromisoformat cutoff [] = Inr 0"
| "recent_commits fromisoformat cutoff (c # cs) =
     (if date c = [] then recent_commits fromisoformat cutoff cs
      else (case fromisoformat (date c) of
              None \<Rightarrow> Inl ValueError
            | Some d \<Rightarrow>
                (case later_than d cutoff of
                   Inl e \<Rightarrow> Inl e
                 | Inr b \<Rightarrow>
                     (case recent_commits fromisoformat cutoff cs of
                        Inl e \<Rightarrow> Inl e
                      | Inr n \<Rightarrow> Inr (if b then Suc n else n)))))"




subsection \<open>The portfolio\<close>







section \<open>Invariants and example values\<close>

text \<open>The dictionary of the deduplication loop: every key is the full name of its entry,
  and no key occurs twice.\<close>

definition keyed :: "(string \<times> candidate) list \<Rightarrow> bool" where
  "keyed d = (distinct (map fst d) \<and> list_all (\<lambda>(k, v). k = c_full_name v) d)"

definition example_repo :: "nat \<Rightarrow> nat \<Rightarrow> string list \<Rightarrow> repository_data" where
  "example_repo s f ts =
     \<lparr>id_r = 1, name = ''demo'', full_name = ''octo/demo'', description = None,
      language = None, stars = s, forks = f, created_at = ''2024-01-01T00:00:00'',
      updated_at = ''2024-06-01T00:00:00'', topics = ts, size_r = 0,
      url = ''https://github.com/octo/demo''\<rparr>"

definition example_basic :: "nat \<Rightarrow> nat \<Rightarrow> string list \<Rightarrow> analysis_result" where
  "example_basic s f ts =
     \<lparr>repository = example_repo s f ts, technical_score = 5, quality_score = 8,
      activity_score = 7, overall_score = 20 / 3\<rparr>"

definition example_aggregate :: "real \<Rightarrow> real \<Rightarrow> (string \<times> nat) list \<Rightarrow> top_analysis" where
  "example_aggregate s f ts =
     \<lparr>total_analyzed = 5, average_stars = s, average_forks = f, common_languages = [],
      common_topics = ts, best_practices = {}, readme_patterns = [],
      file_structure_patterns = []\<rparr>"

definition example_formats :: formats where
  "example_formats = \<lparr>str_int = (\<lambda>n. ''n''), fmt_0f = (\<lambda>x. ''x''), fmt_1f = (\<lambda>x. ''x.x'')\<rparr>"

definition example_parser :: iso_parser where
  \<comment> \<open>accepts one date without offset, the first of June 2024, and rejects the rest\<close>
  "example_parser s =
     (if s = ''2024-06-01T00:00:00'' then Some (Naive 1717200000000000) else None)"

definition example_now :: int where
  \<comment> \<open>the second of June 2024\<close>
  "example_now = 1717286400000000"

definition example_candidate :: "string \<Rightarrow> nat \<Rightarrow> string \<Rightarrow> candidate" where
  "example_candidate n s u =
     \<lparr>c_full_name = n, stargazers_count = s, forks_count = 10, c_language = Some ''Go'',
      c_topics = [''web''], c_description = None, c_updated_at = u\<rparr>"



definition latin1 :: unicode where
  \<comment> \<open>Python's tables on the characters U+0080 to U+00FF\<close>
  "latin1 =
     \<lparr>alnum = (\<lambda>c. c \<in> {170, 178, 179, 181, 185, 186, 188, 189, 190}
                     \<or> (192 \<le> c \<and> c \<le> 255 \<and> c \<noteq> 215 \<and> c \<noteq> 247)),
      str_lower = map (\<lambda>c. if 192 \<le> c \<and> c \<le> 222 \<and> c \<noteq> 215 then c + 32 else lower_char c)\<rparr>"

definition eleven_languages :: "(string \<times> nat) list" where
  "eleven_languages =
     [(''a'', 1), (''b'', 1), (''c'', 1), (''d'', 1), (''e'', 1), (''f'', 1), (''g'', 1),
      (''h'', 1), (''i'', 1), (''j'', 1), (''k'', 1)]"

text \<open>The entry that \<^verbatim>\<open>_rank_languages\<close> builds for one language, for a total of \<open>t\<close> bytes.\<close>

definition entry :: "nat \<Rightarrow> string \<times> nat \<Rightarrow> language_rank" where
  "entry t e = \<lparr>lr_language = fst e, bytes = snd e,
                percentage = round2 (real (snd e) / real t * 100), rank = 0\<rparr>"

section \<open>Properties of the scorer\<close>

lemma clamp_score_bounds: "1 \<le> clamp_score x \<and> clamp_score x \<le> 10"
  by (simp add: clamp_score_def)

lemma quality_raw_ge: "5 \<le> quality_raw r contributors issues"
  by (simp add: quality_raw_def Let_def split: option.split)

lemma activity_raw_ge: "5 \<le> activity_raw fromisoformat now r commits"
  by (simp add: activity_raw_def Let_def)

lemma clamp_score_ge5: "5 \<le> x \<Longrightarrow> 5 \<le> clamp_score x"
  by (simp add: clamp_score_def)

text \<open>
  C1. For every repository and every set of fetched signals, the four scores returned by
  the scorer lie between 1 and 10, and the overall score is the arithmetic mean of the
  technical, quality and activity scores.
\<close>

theorem analyze_repository_scores:
  "(let res = analyze_repository fromisoformat now r languages contributors commits issues
    in 1 \<le> technical_score res \<and> technical_score res \<le> 10
       \<and> 1 \<le> quality_score res \<and> quality_score res \<le> 10
       \<and> 1 \<le> activity_score res \<and> activity_score res \<le> 10
       \<and> 1 \<le> overall_score res \<and> overall_score res \<le> 10
       \<and> overall_score res = (technical_score res + quality_score res + activity_score res) / 3)"
proof -
  have t: "1 \<le> calculate_technical_score r languages"
      "calculate_technical_score r languages \<le> 10"
    using clamp_score_bounds by (simp_all add: calculate_technical_score_def)
  have q: "1 \<le> calculate_quality_score r contributors issues"
      "calculate_quality_score r contributors issues \<le> 10"
    using clamp_score_bounds by (simp_all add: calculate_quality_score_def)
  have a: "1 \<le> calculate_activity_score fromisoformat now r commits"
      "calculate_activity_score fromisoformat now r commits \<le> 10"
    using clamp_score_bounds by (simp_all add: calculate_activity_score_def)
  from t q a show ?thesis
    by (simp add: analyze_repository_def Let_def)
qed

text \<open>
  C10. The quality score and the activity score are at least 5: both start from 5 and
  every rule adds a bonus that is not negative. The technical score can be lower: a
  small repository in Markdown without topics scores 4.2.
\<close>

theorem quality_activity_at_least_five:
  "5 \<le> calculate_quality_score r contributors issues
   \<and> 5 \<le> calculate_activity_score fromisoformat now r commits
   \<and> calculate_technical_score (r\<lparr>language := Some ''Markdown'', size_r := 0, topics := []\<rparr>) []
       = 21 / 5"
proof -
  have "calculate_technical_score (r\<lparr>language := Some ''Markdown'', size_r := 0, topics := []\<rparr>) []
          = 21 / 5"
    by (simp add: calculate_technical_score_def technical_raw_def clamp_score_def
        get_language_complexity_def complexity_map_def Let_def)
  then show ?thesis
    by (simp add: calculate_quality_score_def calculate_activity_score_def
        clamp_score_ge5 quality_raw_ge activity_raw_ge)
qed

section \<open>Properties of the enhanced-score composer\<close>

lemma market_position_bounds:
  "0 \<le> market_position b agg \<and> market_position b agg \<le> 10"
  by (auto simp: market_position_def Let_def split: option.split)

lemma improvement_potential_bounds:
  "5 \<le> improvement_potential imps \<and> improvement_potential imps \<le> 10"
  by (simp add: improvement_potential_def Let_def)

text \<open>
  C2. For the result of the basic analysis of any repository, any comparison aggregate
  and any list of recommendations, the five fields of the enhanced scores (technical,
  quality, activity, market position, improvement potential) lie between 0 and 10, and
  the enhanced overall score is their arithmetic mean.
\<close>

theorem enhanced_scores_bounds:
  "(let basic = analyze_repository fromisoformat now r languages contributors commits issues;
        e = calculate_enhanced_scores basic agg improvements
    in 0 \<le> e_technical_score e \<and> e_technical_score e \<le> 10
       \<and> 0 \<le> e_quality_score e \<and> e_quality_score e \<le> 10
       \<and> 0 \<le> e_activity_score e \<and> e_activity_score e \<le> 10
       \<and> 0 \<le> market_position_score e \<and> market_position_score e \<le> 10
       \<and> 0 \<le> improvement_potential_score e \<and> improvement_potential_score e \<le> 10
       \<and> e_overall_score e
           = (e_technical_score e + e_quality_score e + e_activity_score e
              + market_position_score e + improvement_potential_score e) / 5)"
proof -
  have c: "\<And>x. 0 \<le> clamp_score x \<and> clamp_score x \<le> 10"
    by (simp add: clamp_score_def)
  have m: "0 \<le> market_position b agg" "market_position b agg \<le> 10" for b
    using market_position_bounds by simp_all
  have p: "0 \<le> improvement_potential improvements" "improvement_potential improvements \<le> 10"
    using improvement_potential_bounds [of improvements] by simp_all
  show ?thesis
    by (simp add: Let_def calculate_enhanced_scores_def analyze_repository_def
        calculate_technical_score_def calculate_quality_score_def calculate_activity_score_def
        c m p)
qed

text \<open>
  C3. The market-position score is 5 when there is no comparison data. With an aggregate,
  a mean of stars above 0 replaces the 5 by min(10, stars / mean stars * 10), and a mean
  of forks above 0 then averages the value so far with min(10, forks / mean forks * 10).
  For 150 stars and 60 forks against means of 50 and 20 the score is 10.
\<close>

theorem market_position_rule:
  "market_position_score (calculate_enhanced_scores b agg imps) = market_position b agg
   \<and> market_position b None = 5
   \<and> (0 < average_stars a \<and> \<not> 0 < average_forks a \<longrightarrow>
        market_position b (Some a) = min 10 (real (stars (repository b)) / average_stars a * 10))
   \<and> (0 < average_stars a \<and> 0 < average_forks a \<longrightarrow>
        market_position b (Some a)
          = (min 10 (real (stars (repository b)) / average_stars a * 10)
             + min 10 (real (forks (repository b)) / average_forks a * 10)) / 2)
   \<and> (\<not> 0 < average_stars a \<and> 0 < average_forks a \<longrightarrow>
        market_position b (Some a)
          = (5 + min 10 (real (forks (repository b)) / average_forks a * 10)) / 2)
   \<and> (\<not> 0 < average_stars a \<and> \<not> 0 < average_forks a \<longrightarrow> market_position b (Some a) = 5)
   \<and> (stars (repository b) = 150 \<and> forks (repository b) = 60
        \<and> average_stars a = 50 \<and> average_forks a = 20 \<longrightarrow> market_position b (Some a) = 10)"
  by (simp add: market_position_def calculate_enhanced_scores_def Let_def)

theorem market_position_rule_witness:
  "market_position (example_basic 150 60 []) (Some (example_aggregate 50 20 [])) = 10
   \<and> market_position (example_basic 20 60 []) (Some (example_aggregate 50 0 [])) = 4
   \<and> market_position (example_basic 150 3 []) (Some (example_aggregate 0 20 [])) = 13 / 4
   \<and> market_position (example_basic 150 60 []) (Some (example_aggregate 0 0 [])) = 5
   \<and> market_position (example_basic 150 60 []) None = 5"
proof -
  have "market_position (example_basic 150 60 []) (Some (example_aggregate 50 20 [])) = 10"
    using market_position_rule [of "example_basic 150 60 []" None "[]" "example_aggregate 50 20 []"]
    by (simp add: example_basic_def example_repo_def example_aggregate_def)
  moreover have "market_position (example_basic 20 60 []) (Some (example_aggregate 50 0 [])) = 4"
    using market_position_rule [of "example_basic 20 60 []" None "[]" "example_aggregate 50 0 []"]
    by (simp add: example_basic_def example_repo_def example_aggregate_def)
  moreover have "market_position (example_basic 150 3 []) (Some (example_aggregate 0 20 [])) = 13 / 4"
    using market_position_rule [of "example_basic 150 3 []" None "[]" "example_aggregate 0 20 []"]
    by (simp add: example_basic_def example_repo_def example_aggregate_def)
  moreover have "market_position (example_basic 150 60 []) (Some (example_aggregate 0 0 [])) = 5"
    using market_position_rule [of "example_basic 150 60 []" None "[]" "example_aggregate 0 0 []"]
    by (simp add: example_basic_def example_repo_def example_aggregate_def)
  moreover have "market_position (example_basic 150 60 []) None = 5"
    using market_position_rule [of "example_basic 150 60 []" None "[]" "example_aggregate 0 0 []"]
    by simp
  ultimately show ?thesis by simp
qed

section \<open>Properties of the similarity search\<close>

lemma dict_set_new: "k \<notin> fst ` set d \<Longrightarrow> dict_set k v d = d @ [(k, v)]"
  by (induction d) (auto simp: dict_set_def)

lemma map_of_None_iff: "map_of d k = None \<longleftrightarrow> k \<notin> fst ` set d"
  by (simp add: map_of_eq_None_iff)

lemma all_keyed_update:
  "list_all (\<lambda>(k, v). k = c_full_name v) d \<Longrightarrow>
   list_all (\<lambda>(k, v). k = c_full_name v) (AList.update (c_full_name v) v d)"
  by (induction d) auto

lemma keyed_dict_set: "keyed d \<Longrightarrow> keyed (dict_set (c_full_name v) v d)"
  by (simp add: keyed_def dict_set_def AList.distinct_update all_keyed_update)

lemma keyed_remember: "keyed d \<Longrightarrow> keyed (remember repo d)"
  by (simp add: remember_def keyed_dict_set split: option.split)

lemma keyed_collect_unique: "keyed d \<Longrightarrow> keyed (collect_unique xs d)"
  by (induction xs arbitrary: d) (simp_all add: keyed_remember)

lemma keyed_names: "keyed d \<Longrightarrow> map c_full_name (map snd d) = map fst d"
  unfolding keyed_def by (induction d) auto

lemma distinct_names_collect: "distinct (map c_full_name (map snd (collect_unique xs [])))"
proof -
  have k: "keyed (collect_unique xs [])"
    by (rule keyed_collect_unique) (simp add: keyed_def)
  then show ?thesis
    by (simp only: keyed_names) (simp add: keyed_def)
qed

lemma distinct_names_take_sort:
  "distinct (map g ys) \<Longrightarrow> distinct (map g (take n (sort_key f ys)))"
proof -
  assume d: "distinct (map g ys)"
  then have "distinct (map g (sort_key f ys))"
    by (simp add: distinct_map)
  then show ?thesis
    by (simp flip: take_map)
qed

text \<open>On a list without two entries of one name, the loop keeps every entry in place.\<close>

lemma collect_unique_distinct:
  "distinct (map c_full_name ys) \<Longrightarrow> set (map c_full_name ys) \<inter> fst ` set d = {} \<Longrightarrow>
   collect_unique ys d = d @ map (\<lambda>y. (c_full_name y, y)) ys"
proof (induction ys arbitrary: d)
  case Nil
  then show ?case by simp
next
  case (Cons y ys)
  from Cons.prems have new: "c_full_name y \<notin> fst ` set d" by auto
  then have r: "remember y d = d @ [(c_full_name y, y)]"
    by (simp add: remember_def dict_set_new map_of_None_iff [THEN iffD2])
  have "collect_unique ys (d @ [(c_full_name y, y)])
          = (d @ [(c_full_name y, y)]) @ map (\<lambda>y. (c_full_name y, y)) ys"
    using Cons.prems by (intro Cons.IH) auto
  with r show ?case by simp
qed

lemma collect_unique_id:
  "distinct (map c_full_name ys) \<Longrightarrow> map snd (collect_unique ys []) = ys"
  by (simp add: collect_unique_distinct comp_def)

lemma sorted_take_sort: "sorted (map f (take n (sort_key f ys)))"
  unfolding take_map [symmetric] by (rule sorted_wrt_take) (rule sorted_sort_key)

text \<open>
  C8. Deduplication by full name (the entry with more stars wins), sorting by stars in
  descending order and truncation to 20 entries is idempotent: applied to its own
  output, the step returns that output. The output has no two entries of one name, is
  sorted by descending stars and has at most 20 entries.
\<close>

theorem dedup_and_rank_idempotent:
  "dedup_and_rank (dedup_and_rank xs) = dedup_and_rank xs
   \<and> distinct (map c_full_name (dedup_and_rank xs))
   \<and> sorted (map (\<lambda>x. - int (stargazers_count x)) (dedup_and_rank xs))
   \<and> length (dedup_and_rank xs) \<le> 20"
proof -
  define out where "out = dedup_and_rank xs"
  have d: "distinct (map c_full_name out)"
    unfolding out_def dedup_and_rank_def sort_by_stars_def Let_def
    by (rule distinct_names_take_sort) (rule distinct_names_collect)
  have s: "sorted (map (\<lambda>x. - int (stargazers_count x)) out)"
    unfolding out_def dedup_and_rank_def sort_by_stars_def Let_def
    by (rule sorted_take_sort)
  have l: "length out \<le> 20"
    by (simp add: out_def dedup_and_rank_def Let_def)
  have "dedup_and_rank out = take 20 (sort_by_stars out)"
    by (simp add: dedup_and_rank_def Let_def collect_unique_id [OF d])
  also have "\<dots> = take 20 out"
    using s by (simp add: sort_by_stars_def sort_key_id_if_sorted)
  also have "\<dots> = out"
    using l by simp
  finally have "dedup_and_rank out = out" .
  with d s l show ?thesis by (simp add: out_def)
qed

subsection \<open>Keyword extraction\<close>

lemma match_len_spec:
  "match_len u p cs = Some n \<Longrightarrow>
   n \<le> length cs \<and> list_all in_class (take n cs)
   \<and> is_word u (last (p # take n cs)) \<noteq> (drop n cs \<noteq> [] \<and> is_word u (hd (drop n cs)))"
proof (induction cs arbitrary: p n)
  case Nil
  then show ?case by (simp split: if_splits)
next
  case (Cons c cs)
  show ?case
  proof (cases "if in_class c then match_len u c cs else None")
    case None
    with Cons.prems have "n = 0" "is_word u p \<noteq> is_word u c"
      by (simp_all split: if_splits)
    then show ?thesis by simp
  next
    case (Some m)
    then have c: "in_class c" and m: "match_len u c cs = Some m"
      by (simp_all split: if_splits)
    from Some Cons.prems have n: "n = Suc m" by simp
    from Cons.IH [OF m] c show ?thesis
      unfolding n by simp
  qed
qed

lemma token_at_shift:
  "token_at u (is_word u (last (c # pre0))) pre w post \<Longrightarrow>
   token_at u p ((c # pre0) @ pre) w post"
  by (auto simp: token_at_def)

lemma findall_token:
  "w \<in> set (findall u p s) \<Longrightarrow> \<exists>pre post. s = pre @ w @ post \<and> token_at u p pre w post"
proof (induction u p s rule: findall.induct)
  case (1 u p)
  then show ?case by simp
next
  case (2 u p c cs)
  have skip: ?case if "w \<in> set (findall u (is_word u c) cs)"
    and ih: "w \<in> set (findall u (is_word u c) cs) \<Longrightarrow>
       \<exists>pre post. cs = pre @ w @ post \<and> token_at u (is_word u c) pre w post"
  proof -
    from ih [OF that(1)] obtain pre post
      where "cs = pre @ w @ post" "token_at u (is_word u c) pre w post" by blast
    then have "c # cs = ((c # []) @ pre) @ w @ post" "token_at u p ((c # []) @ pre) w post"
      using token_at_shift [of u c "[]" pre w post p] by simp_all
    then show ?thesis by blast
  qed
  show ?case
  proof (cases "in_class c \<and> p \<noteq> is_word u c")
    case False
    with "2.prems" have "w \<in> set (findall u (is_word u c) cs)" by auto
    with False "2.IH"(3) skip show ?thesis by blast
  next
    case True
    show ?thesis
    proof (cases "match_len u c cs")
      case None
      with True "2.prems" have "w \<in> set (findall u (is_word u c) cs)" by auto
      with True None "2.IH"(1) skip show ?thesis by blast
    next
      case (Some n)
      note spec = match_len_spec [OF Some]
      from True Some "2.prems" consider "w = c # take n cs"
        | "w \<in> set (findall u (is_word u (last (c # take n cs))) (drop n cs))"
        by auto
      then show ?thesis
      proof cases
        case 1
        have "c # cs = [] @ w @ drop n cs"
          using 1 by simp
        moreover have "token_at u p [] w (drop n cs)"
          using 1 True spec by (simp add: token_at_def)
        ultimately show ?thesis by blast
      next
        case 2
        with True Some "2.IH"(2) obtain pre post
          where d: "drop n cs = pre @ w @ post"
            and t: "token_at u (is_word u (last (c # take n cs))) pre w post"
          by blast
        have "c # cs = ((c # take n cs) @ pre) @ w @ post"
          using d by (metis append_Cons append_assoc append_take_drop_id)
        moreover have "token_at u p ((c # take n cs) @ pre) w post"
          using t by (rule token_at_shift)
        ultimately show ?thesis by blast
      qed
    qed
  qed
qed

lemma upper_range: "c \<in> set (ascii upper_letters) \<Longrightarrow> 65 \<le> c \<and> c \<le> 90"
  by (auto simp: ascii_def upper_letters_def)

lemma lower_char_not_upper: "lower_char c \<notin> set (ascii upper_letters)"
  using upper_range [of "lower_char c"] by (auto simp: lower_char_def split: if_splits)

lemma findall_chars: "w \<in> set (findall u p s) \<Longrightarrow> set w \<subseteq> set s"
  using findall_token [of w u p s] by auto

lemma findall_accented:
  "alnum u 233 \<Longrightarrow>
   findall u False (ascii ''caf'' @ [233] @ ascii '' plain'') = [ascii ''plain'']"
  by (simp add: ascii_def is_word_def in_class_def is_ascii_def lower_letters_def
      upper_letters_def digits_def)

lemma extract_keywords_accented:
  "extract_keywords latin1 (ascii ''Caf'' @ [201] @ ascii '' plain text'')
     = map ascii [''plain'', ''text'']"
  by code_simp

text \<open>
  C9. Keyword extraction lower-cases the description, takes the matches of the pattern
  from left to right (each match is a run of characters of the class with a word
  boundary at both ends), drops every token of at most two characters and every token
  of the stop-word list, and keeps the first ten of the rest in their order. This holds
  for every text and for any Unicode tables. The keywords of an ASCII text have no
  upper-case letter. The description "A fast web API for real time chat" gives fast,
  web, api, real, time, chat.
\<close>

theorem extract_keywords_spec:
  "(let kws = extract_keywords u d;
        tokens = findall u False (lower u d)
    in length kws \<le> 10
       \<and> kws = take 10 (filter (\<lambda>w. 2 < length w \<and> w \<notin> set common_words) tokens)
       \<and> (\<forall>w \<in> set kws. 2 < length w \<and> w \<notin> set common_words
              \<and> (\<exists>pre post. lower u d = pre @ w @ post \<and> token_at u False pre w post))
       \<and> (list_all is_ascii d \<longrightarrow>
            lower u d = map lower_char d
            \<and> (\<forall>w \<in> set kws. \<forall>c \<in> set w. c \<notin> set (ascii upper_letters))))
   \<and> extract_keywords u (ascii ''A fast web API for real time chat'')
       = map ascii [''fast'', ''web'', ''api'', ''real'', ''time'', ''chat'']"
proof -
  define tokens where "tokens = findall u False (lower u d)"
  define kws where "kws = take 10 (filter (\<lambda>w. 2 < length w \<and> w \<notin> set common_words) tokens)"
  have l0: "lower u [] = []"
    by (simp add: lower_def)
  have e: "extract_keywords u d = kws"
    by (cases d) (simp_all add: extract_keywords_def Let_def kws_def tokens_def l0)
  have l: "length kws \<le> 10"
    by (simp add: kws_def)
  have f: "w \<in> set tokens \<and> 2 < length w \<and> w \<notin> set common_words" if "w \<in> set kws" for w
  proof -
    from that have "w \<in> set (filter (\<lambda>w. 2 < length w \<and> w \<notin> set common_words) tokens)"
      unfolding kws_def by (rule in_set_takeD)
    then show ?thesis by simp
  qed
  have t: "\<exists>pre post. lower u d = pre @ w @ post \<and> token_at u False pre w post"
    if "w \<in> set kws" for w
    using f [OF that] findall_token [of w u False "lower u d"] by (simp add: tokens_def)
  have a: "lower u d = map lower_char d" if "list_all is_ascii d"
    using that by (simp add: lower_def)
  have n: "c \<notin> set (ascii upper_letters)"
    if "list_all is_ascii d" "w \<in> set kws" "c \<in> set w" for w c
  proof -
    from f [OF that(2)] have "w \<in> set (findall u False (lower u d))"
      by (simp add: tokens_def)
    then have "set w \<subseteq> set (lower u d)"
      by (rule findall_chars)
    with that(3) a [OF that(1)] obtain c0 where "c = lower_char c0" by auto
    then show ?thesis by (simp add: lower_char_not_upper)
  qed
  have x: "extract_keywords u (ascii ''A fast web API for real time chat'')
       = map ascii [''fast'', ''web'', ''api'', ''real'', ''time'', ''chat'']"
    by code_simp
  have "length kws \<le> 10
       \<and> kws = take 10 (filter (\<lambda>w. 2 < length w \<and> w \<notin> set common_words) tokens)
       \<and> (\<forall>w \<in> set kws. 2 < length w \<and> w \<notin> set common_words
              \<and> (\<exists>pre post. lower u d = pre @ w @ post \<and> token_at u False pre w post))
       \<and> (list_all is_ascii d \<longrightarrow>
            lower u d = map lower_char d
            \<and> (\<forall>w \<in> set kws. \<forall>c \<in> set w. c \<notin> set (ascii upper_letters)))"
    using l f t a n unfolding kws_def [symmetric] by blast
  then show ?thesis
    unfolding Let_def e tokens_def [symmetric] kws_def [symmetric] using x by blast
qed

theorem extract_keywords_spec_witness:
  "take 3 (extract_keywords latin1 (ascii ''A fast web API for real time chat''))
     = map ascii [''fast'', ''web'', ''api'']
   \<and> length (extract_keywords latin1 (ascii ''A fast web API for real time chat'')) \<le> 10"
  by (simp add: extract_keywords_spec
      [of latin1 "ascii ''A fast web API for real time chat''", THEN conjunct2])


section \<open>Properties of the recommendation generator\<close>

lemma missing_topics_iff:
  "t \<in> set (missing_topics_of r common) \<longleftrightarrow> (\<exists>c. (t, c) \<in> set common \<and> 2 \<le> c \<and> t \<notin> set (topics r))"
  by (auto simp: missing_topics_of_def image_iff)

lemma topics_rec_emitted:
  "topics r \<noteq> [] \<Longrightarrow> missing_topics_of r (common_topics a) \<noteq> [] \<Longrightarrow>
   topics_rec (missing_topics_of r (common_topics a))
     \<in> set (generate_improvement_recommendations fmt r basic (Some a))"
  by (simp add: generate_improvement_recommendations_def Let_def split: option.split)

lemma topics_rec_not_emitted:
  "topics r = [] \<Longrightarrow>
   ''Add Relevant Topics'' \<notin> rec_title ` set (generate_improvement_recommendations fmt r basic agg)"
  by (auto simp: generate_improvement_recommendations_def Let_def visibility_rec_def
      contributions_rec_def language_rec_def quality_rec_def activity_rec_def
      split: option.split)

text \<open>
  C6, amended. Whenever the target repository has at least one topic of its own and the
  topic frequency map of the comparison aggregate contains a topic that occurs at least
  twice and that the target does not have, the generator emits the low-priority
  recommendation "Add Relevant Topics", whose description lists the first five (at
  most) of those missing topics. For a target without topics the generator never emits it.
\<close>

theorem topics_recommendation:
  "(topics r \<noteq> [] \<and> (t, c) \<in> set (common_topics a) \<and> 2 \<le> c \<and> t \<notin> set (topics r) \<longrightarrow>
     (let missing = missing_topics_of r (common_topics a);
          recs = generate_improvement_recommendations fmt r basic (Some a)
      in t \<in> set missing
         \<and> topics_rec missing \<in> set recs
         \<and> rec_title (topics_rec missing) = ''Add Relevant Topics''
         \<and> priority (topics_rec missing) = ''low''
         \<and> rec_description (topics_rec missing)
             = ''Consider adding these popular topics: '' @ join '', '' (take 5 missing)
         \<and> length (take 5 missing) \<le> 5
         \<and> (\<forall>m \<in> set (take 5 missing).
               m \<notin> set (topics r) \<and> (\<exists>n. (m, n) \<in> set (common_topics a) \<and> 2 \<le> n))))
   \<and> (topics r = [] \<longrightarrow>
        ''Add Relevant Topics''
          \<notin> rec_title ` set (generate_improvement_recommendations fmt r basic agg))"
proof (intro conjI impI)
  assume "topics r = []"
  then show "''Add Relevant Topics''
          \<notin> rec_title ` set (generate_improvement_recommendations fmt r basic agg)"
    by (rule topics_rec_not_emitted)
next
  assume h: "topics r \<noteq> [] \<and> (t, c) \<in> set (common_topics a) \<and> 2 \<le> c \<and> t \<notin> set (topics r)"
  define missing where "missing = missing_topics_of r (common_topics a)"
  have m: "t \<in> set missing"
    using h unfolding missing_def missing_topics_iff by blast
  then have ne: "missing \<noteq> []" by auto
  have e: "topics_rec missing \<in> set (generate_improvement_recommendations fmt r basic (Some a))"
    using h ne unfolding missing_def by (intro topics_rec_emitted) simp_all
  have s: "m \<notin> set (topics r) \<and> (\<exists>n. (m, n) \<in> set (common_topics a) \<and> 2 \<le> n)"
    if "m \<in> set (take 5 missing)" for m
  proof -
    from that have "m \<in> set missing" by (rule in_set_takeD)
    then show ?thesis unfolding missing_def missing_topics_iff by blast
  qed
  show "let missing = missing_topics_of r (common_topics a);
          recs = generate_improvement_recommendations fmt r basic (Some a)
      in t \<in> set missing
         \<and> topics_rec missing \<in> set recs
         \<and> rec_title (topics_rec missing) = ''Add Relevant Topics''
         \<and> priority (topics_rec missing) = ''low''
         \<and> rec_description (topics_rec missing)
             = ''Consider adding these popular topics: '' @ join '', '' (take 5 missing)
         \<and> length (take 5 missing) \<le> 5
         \<and> (\<forall>m \<in> set (take 5 missing).
               m \<notin> set (topics r) \<and> (\<exists>n. (m, n) \<in> set (common_topics a) \<and> 2 \<le> n))"
    unfolding Let_def missing_def [symmetric]
    using m e s by (simp add: topics_rec_def)
qed

text \<open>The claim as first stated fails for a target without topics: the topic "web" occurs
  twice in the aggregate and is missing, and no recommendation is emitted.\<close>

theorem topics_recommendation_counterexample:
  "(''web'', 2) \<in> set (common_topics (example_aggregate 0 0 [(''web'', 2)]))
   \<and> ''web'' \<notin> set (topics (example_repo 0 0 []))
   \<and> generate_improvement_recommendations example_formats (example_repo 0 0 [])
        (example_basic 0 0 []) (Some (example_aggregate 0 0 [(''web'', 2)])) = []"
  by (simp add: generate_improvement_recommendations_def Let_def example_aggregate_def
      example_repo_def example_basic_def)

theorem topics_recommendation_witness:
  "topics_rec [''web''] \<in> set (generate_improvement_recommendations example_formats
       (example_repo 0 0 [''api'']) (example_basic 0 0 [''api''])
       (Some (example_aggregate 0 0 [(''web'', 2), (''api'', 3), (''cli'', 1)])))
   \<and> rec_description (topics_rec [''web'']) = ''Consider adding these popular topics: web''
   \<and> ''Add Relevant Topics'' \<notin> rec_title ` set (generate_improvement_recommendations
        example_formats (example_repo 0 0 []) (example_basic 0 0 [])
        (Some (example_aggregate 0 0 [(''web'', 2)])))"
proof -
  have m: "missing_topics_of (example_repo 0 0 [''api''])
             (common_topics (example_aggregate 0 0 [(''web'', 2), (''api'', 3), (''cli'', 1)]))
           = [''web'']"
    by (simp add: missing_topics_of_def example_repo_def example_aggregate_def)
  have "topics_rec [''web''] \<in> set (generate_improvement_recommendations example_formats
       (example_repo 0 0 [''api'']) (example_basic 0 0 [''api''])
       (Some (example_aggregate 0 0 [(''web'', 2), (''api'', 3), (''cli'', 1)])))
     \<and> rec_description (topics_rec [''web'']) = ''Consider adding these popular topics: web''"
    using topics_recommendation [of "example_repo 0 0 [''api'']" "''web''" 2
        "example_aggregate 0 0 [(''web'', 2), (''api'', 3), (''cli'', 1)]" example_formats
        "example_basic 0 0 [''api'']" None]
    unfolding m Let_def
    by (simp add: example_repo_def example_aggregate_def)
  moreover have "''Add Relevant Topics'' \<notin> rec_title ` set (generate_improvement_recommendations
        example_formats (example_repo 0 0 []) (example_basic 0 0 [])
        (Some (example_aggregate 0 0 [(''web'', 2)])))"
    using topics_recommendation [of "example_repo 0 0 []" "''web''" 2
        "example_aggregate 0 0 [(''web'', 2)]" example_formats
        "example_basic 0 0 []" "Some (example_aggregate 0 0 [(''web'', 2)])"]
    by (simp add: example_repo_def)
  ultimately show ?thesis by simp
qed

section \<open>Properties of the comparison-set aggregator\<close>

lemma practices_of_unparsed:
  "fromisoformat (replace_Z (c_updated_at repo)) = None \<Longrightarrow>
   practices_of fromisoformat now repo = Inl ValueError"
  by (simp add: practices_of_def parse_date_def Let_def)

lemma practices_of_aware:
  "fromisoformat (replace_Z (c_updated_at repo)) = Some (Aware t) \<Longrightarrow>
   practices_of fromisoformat now repo = Inl TypeError"
  by (simp add: practices_of_def parse_date_def days_since_def Let_def)

lemma practices_loop_fails:
  "repo \<in> set repos \<Longrightarrow> practices_of fromisoformat now repo = Inl e \<Longrightarrow>
   \<exists>e'. practices_loop fromisoformat now repos acc = Inl e'"
proof (induction repos arbitrary: acc)
  case Nil
  then show ?case by simp
next
  case (Cons x xs)
  show ?case
  proof (cases "practices_of fromisoformat now x")
    case (Inl a)
    then show ?thesis by simp
  next
    case (Inr ps)
    with Cons.prems have "repo \<in> set xs" by auto
    with Cons.IH Cons.prems(2) Inr show ?thesis by simp
  qed
qed

text \<open>
  C5. The claim is that a timestamp that fails to parse does not abort the aggregation of
  the remaining candidates. The code does abort: when the \<^verbatim>\<open>updated_at\<close> of one of the
  top five candidates does not parse (or parses to a datetime with an offset, which cannot
  be subtracted from \<^verbatim>\<open>datetime.now()\<close>), the aggregator returns the empty dictionary,
  without statistics for any candidate.
\<close>

theorem aggregation_aborts_on_bad_timestamp:
  "repo \<in> set (take 5 repositories) \<Longrightarrow>
   fromisoformat (replace_Z (c_updated_at repo)) = None
     \<or> (\<exists>t. fromisoformat (replace_Z (c_updated_at repo)) = Some (Aware t)) \<Longrightarrow>
   analyze_top_repositories fromisoformat now repositories = None"
proof -
  assume m: "repo \<in> set (take 5 repositories)"
  assume "fromisoformat (replace_Z (c_updated_at repo)) = None
     \<or> (\<exists>t. fromisoformat (replace_Z (c_updated_at repo)) = Some (Aware t))"
  then obtain e where "practices_of fromisoformat now repo = Inl e"
    using practices_of_unparsed practices_of_aware by blast
  with m obtain e' where "practices_loop fromisoformat now (take 5 repositories) [] = Inl e'"
    using practices_loop_fails by blast
  then show ?thesis
    by (simp add: analyze_top_repositories_def extract_best_practices_def Let_def)
qed


theorem aggregation_aborts_on_bad_timestamp_witness:
  "analyze_top_repositories example_parser example_now
     [example_candidate ''a/good'' 200 ''2024-06-01T00:00:00'',
      example_candidate ''b/bad'' 300 ''yesterday''] = None
   \<and> analyze_top_repositories example_parser example_now
     [example_candidate ''a/good'' 200 ''2024-06-01T00:00:00'']
     = Some \<lparr>total_analyzed = 1, average_stars = 200, average_forks = 10,
             common_languages = [(''Go'', 1)], common_topics = [(''web'', 1)],
             best_practices = {''High community engagement (100+ stars)'',
                               ''Recent development activity''},
             readme_patterns = [], file_structure_patterns = []\<rparr>"
proof -
  have "analyze_top_repositories example_parser example_now
     [example_candidate ''a/good'' 200 ''2024-06-01T00:00:00'',
      example_candidate ''b/bad'' 300 ''yesterday''] = None"
    by (rule aggregation_aborts_on_bad_timestamp [of "example_candidate ''b/bad'' 300 ''yesterday''"])
       (simp_all add: example_candidate_def example_parser_def replace_Z_def)
  moreover have "analyze_top_repositories example_parser example_now
     [example_candidate ''a/good'' 200 ''2024-06-01T00:00:00'']
     = Some \<lparr>total_analyzed = 1, average_stars = 200, average_forks = 10,
             common_languages = [(''Go'', 1)], common_topics = [(''web'', 1)],
             best_practices = {''High community engagement (100+ stars)'',
                               ''Recent development activity''},
             readme_patterns = [], file_structure_patterns = []\<rparr>"
    by (simp add: analyze_top_repositories_def extract_best_practices_def practices_of_def
        parse_date_def days_since_def days_of_def example_candidate_def example_parser_def
        example_now_def replace_Z_def bump_def dict_set_def Let_def)
  ultimately show ?thesis by simp
qed

section \<open>Properties of the portfolio aggregator\<close>









subsection \<open>Language ranking\<close>

lemma round_half_even_error: "\<bar>of_int (round_half_even y) - y\<bar> \<le> 1 / 2"
proof -
  have "of_int \<lfloor>y\<rfloor> \<le> y" "y < of_int \<lfloor>y\<rfloor> + 1"
    by linarith+
  then show ?thesis
    by (auto simp: round_half_even_def Let_def)
qed

lemma round2_error: "\<bar>round2 x - x\<bar> \<le> 1 / 200"
proof -
  have "\<bar>of_int (round_half_even (x * 100)) - x * 100\<bar> \<le> 1 / 2"
    by (rule round_half_even_error)
  then show ?thesis
    by (simp add: round2_def abs_le_iff field_simps)
qed

lemma sum_list_insort_key:
  "sum_list (map f (insort_key k x xs)) = (f x :: real) + sum_list (map f xs)"
  by (induction xs) simp_all

lemma sum_list_sort_key: "sum_list (map f (sort_key k xs)) = (sum_list (map f xs) :: real)"
  by (induction xs) (simp_all add: sum_list_insort_key)

lemma sum_list_take_le:
  "(\<forall>x \<in> set xs. 0 \<le> f x) \<Longrightarrow> sum_list (map f (take n xs)) \<le> (sum_list (map f xs) :: real)"
proof -
  assume nn: "\<forall>x \<in> set xs. 0 \<le> f x"
  have "sum_list (map f xs) = sum_list (map f (take n xs)) + sum_list (map f (drop n xs))"
    by (metis append_take_drop_id map_append sum_list_append)
  moreover have "0 \<le> sum_list (map f (drop n xs))"
    using nn by (intro sum_list_nonneg) (auto dest: in_set_dropD)
  ultimately show ?thesis by simp
qed

lemma sum_list_close:
  "(\<forall>x \<in> set xs. \<bar>p x - e x\<bar> \<le> (d :: real)) \<Longrightarrow>
   \<bar>sum_list (map p xs) - sum_list (map e xs)\<bar> \<le> real (length xs) * d"
proof (induction xs)
  case Nil
  then show ?case by simp
next
  case (Cons x xs)
  then have "\<bar>p x - e x\<bar> \<le> d" "\<bar>sum_list (map p xs) - sum_list (map e xs)\<bar> \<le> real (length xs) * d"
    by simp_all
  then show ?case
    by (simp add: algebra_simps abs_le_iff)
qed

lemma percentage_enumerate:
  "map percentage (map (\<lambda>(i, lang). lang\<lparr>rank := i + 1\<rparr>) (enumerate n xs)) = map percentage xs"
  by (induction xs arbitrary: n) simp_all

lemma bytes_enumerate:
  "map bytes (map (\<lambda>(i, lang). lang\<lparr>rank := i + 1\<rparr>) (enumerate n xs)) = map bytes xs"
  by (induction xs arbitrary: n) simp_all

lemma sum_shares:
  "sum_list (map (\<lambda>(l, b). real b / t * 100) languages)
     = real (sum_list (map snd languages)) / t * 100"
  by (induction languages) (auto simp: add_divide_distrib distrib_right)

lemma rank_languages_eq:
  assumes "0 < sum_list (map snd languages)"
  shows "map percentage (rank_languages languages)
     = take 10 (map percentage (sort_key (\<lambda>x. - int (bytes x))
                  (map (entry (sum_list (map snd languages))) languages)))"
proof -
  have lam: "(\<lambda>(lang, bytes_count).
          \<lparr>lr_language = lang, bytes = bytes_count,
           percentage = round2 (real bytes_count / real t * 100), rank = 0\<rparr>) = entry t" for t
    by (auto simp: entry_def fun_eq_iff)
  have "rank_languages languages
          = take 10 (map (\<lambda>(i, lang). lang\<lparr>rank := i + 1\<rparr>)
              (enumerate 0 (sort_key (\<lambda>x. - int (bytes x))
                  (map (entry (sum_list (map snd languages))) languages))))"
    using assms unfolding rank_languages_def Let_def lam by (simp del: sum_list_eq_0_iff)
  then show ?thesis
    by (simp only: take_map [symmetric] percentage_enumerate)
qed

lemma shares_of_entries:
  "map (\<lambda>x. real (bytes x) / real t * 100) (map (entry t) languages)
     = map (\<lambda>(l, b). real b / real t * 100) languages"
  by (induction languages) (auto simp: entry_def)

lemma sum_entries:
  assumes "0 < sum_list (map snd languages)"
  shows "sum_list (map (\<lambda>x. real (bytes x) / real (sum_list (map snd languages)) * 100)
           (map (entry (sum_list (map snd languages))) languages)) = 100"
proof -
  define t where "t = sum_list (map snd languages)"
  from assms have "0 < t" by (simp only: t_def)
  then have "real t / real t * 100 = 100" by simp
  then show ?thesis
    by (simp only: shares_of_entries sum_shares t_def)
qed

text \<open>
  C7, amended. The ranking has at most ten entries, each with its share of the total
  bytes rounded to two decimals. When the portfolio has at most ten languages (and some
  bytes), all of them are ranked and the percentages sum to 100 within rounding: within
  0.005 for each entry. In every case the percentages of the entries sum to at most 100
  plus that rounding: with more than ten languages the ranked ten hold only their part,
  and nothing is counted twice.
\<close>

theorem language_percentages:
  "(let res = rank_languages languages;
        total = sum_list (map percentage res)
    in length res \<le> 10
       \<and> total \<le> 100 + real (length res) / 200
       \<and> (0 < sum_list (map snd languages) \<and> length languages \<le> 10 \<longrightarrow>
            length res = length languages \<and> \<bar>total - 100\<bar> \<le> real (length languages) / 200)
       \<and> (sum_list (map snd languages) = 0 \<longrightarrow> res = []))"
proof (cases "0 < sum_list (map snd languages)")
  case False
  then show ?thesis
    by (simp add: rank_languages_def Let_def)
next
  case True
  define t where "t = sum_list (map snd languages)"
  define k where "k = (\<lambda>x :: language_rank. - int (bytes x))"
  define srt where "srt = sort_key k (map (entry t) languages)"
  define e where "e = (\<lambda>x :: language_rank. real (bytes x) / real t * 100)"
  have pm: "map percentage (rank_languages languages) = take 10 (map percentage srt)"
    using rank_languages_eq [OF True] by (simp add: srt_def k_def t_def)
  have len: "length (rank_languages languages) = min (length languages) 10"
    using arg_cong [OF pm, of length] by (simp add: srt_def)
  have close: "\<bar>percentage x - e x\<bar> \<le> 1 / 200" if "x \<in> set srt" for x
  proof -
    from that obtain l where "x = entry t l"
      by (auto simp: srt_def)
    then show ?thesis
      using round2_error [of "real (snd l) / real t * 100"]
      by (simp add: entry_def e_def)
  qed
  have nonneg: "0 \<le> e x" for x
    by (simp add: e_def)
  have all: "sum_list (map e srt) = 100"
  proof -
    have "sum_list (map e srt) = sum_list (map e (map (entry t) languages))"
      unfolding srt_def by (rule sum_list_sort_key)
    also have "\<dots> = 100"
      using sum_entries [OF True] unfolding e_def t_def .
    finally show ?thesis .
  qed
  have tk: "sum_list (map percentage (rank_languages languages))
             = sum_list (map percentage (take 10 srt))"
    by (simp add: pm take_map)
  have c10: "\<bar>sum_list (map percentage (take 10 srt)) - sum_list (map e (take 10 srt))\<bar>
               \<le> real (length (take 10 srt)) * (1 / 200)"
    by (rule sum_list_close) (blast dest: in_set_takeD intro: close)
  have le: "sum_list (map e (take 10 srt)) \<le> 100"
    using sum_list_take_le [of srt e 10] nonneg all by simp
  have l10: "length (take 10 srt) = length (rank_languages languages)"
    using len by (simp add: srt_def)
  define P where "P = sum_list (map percentage (take 10 srt))"
  define E where "E = sum_list (map e (take 10 srt))"
  define n where "n = real (length (rank_languages languages))"
  have c: "\<bar>P - E\<bar> \<le> n * (1 / 200)"
    using c10 by (simp only: l10 n_def P_def E_def)
  have nd: "n * (1 / 200) = n / 200" by simp
  have upper: "sum_list (map percentage (rank_languages languages))
                 \<le> 100 + real (length (rank_languages languages)) / 200"
    unfolding tk P_def [symmetric] n_def [symmetric]
    using c le nd unfolding E_def [symmetric] by linarith
  have exact: "\<bar>sum_list (map percentage (rank_languages languages)) - 100\<bar>
                 \<le> real (length languages) / 200" if "length languages \<le> 10"
  proof -
    from that have "take 10 srt = srt" by (simp add: srt_def)
    then have "E = 100" using all by (simp add: E_def)
    moreover from that len have "n = real (length languages)" by (simp add: n_def)
    ultimately show ?thesis
      unfolding tk P_def [symmetric] using c nd by linarith
  qed
  have f1: "length (rank_languages languages) \<le> 10"
    using len by simp
  have f3: "length (rank_languages languages) = length languages" if "length languages \<le> 10"
    using len that by simp
  have f4: "sum_list (map snd languages) = 0 \<longrightarrow> rank_languages languages = []"
    using True by arith
  from f1 upper f3 exact f4 show ?thesis
    unfolding Let_def by blast
qed


theorem language_percentages_witness:
  "length (rank_languages [(''Python'', 2), (''Go'', 1)]) = 2
   \<and> \<bar>sum_list (map percentage (rank_languages [(''Python'', 2), (''Go'', 1)])) - 100\<bar>
       \<le> 2 / 200"
  using language_percentages [of "[(''Python'', 2), (''Go'', 1)]"]
  by (simp add: Let_def)

text \<open>The claim as first stated fails in both of its halves: one language alone has
  100 percent, which is not less than 100; and of eleven languages of one byte each, the
  ten that are ranked have 9.09 percent each, 90.9 together.\<close>

theorem language_percentages_counterexample:
  "length [(''Python'', 100 :: nat)] < 10
   \<and> sum_list (map percentage (rank_languages [(''Python'', 100)])) = 100
   \<and> 10 \<le> length eleven_languages \<and> distinct (map fst eleven_languages)
   \<and> sum_list (map percentage (rank_languages eleven_languages)) = 909 / 10"
  by (simp add: rank_languages_def Let_def round2_def round_half_even_def eleven_languages_def)

end
